theory Spec2Isabelle
  imports Main "HOL-Library.AList"
begin

section \<open>The upstream HTTP world\<close>

text \<open>
  The Go sources talk to an Ollama server through \<^verbatim>\<open>net/http\<close> and
  \<^verbatim>\<open>encoding/json\<close>. Both are standard library, so they enter the model as
  parameters: what the server answers to a request, and what the JSON decoder makes
  of a response body. A Go \<^verbatim>\<open>error\<close> is the text its \<^verbatim>\<open>Error()\<close> method
  prints; a function returning \<^verbatim>\<open>(T, error)\<close> returns \<open>string + T\<close>, \<open>Inl\<close>
  carrying the error.
\<close>

text \<open>\<^verbatim>\<open>providers.Message\<close>: the two fields the sources read.\<close>

record Message =
  Role :: string
  Content :: string

text \<open>
  \<^verbatim>\<open>OllamaMessage\<close>, \<^verbatim>\<open>OllamaRequest\<close>, \<^verbatim>\<open>OllamaResponse\<close> of
  \<^verbatim>\<open>pkg/providers/ollama.go\<close>. Package \<^verbatim>\<open>ollama\<close> declares the same three
  structs as \<^verbatim>\<open>Message\<close>, \<^verbatim>\<open>ChatRequest\<close>, \<^verbatim>\<open>ChatResponse\<close>, field for
  field, so one set of records serves both files. \<^verbatim>\<open>CreatedAt\<close> is a time stamp.
\<close>

record OllamaMessage =
  om_Role :: string
  om_Content :: string

record OllamaRequest =
  oq_Model :: string
  oq_Messages :: "OllamaMessage list"
  oq_Stream :: bool

record OllamaResponse =
  or_Model :: string
  or_CreatedAt :: int
  or_Message :: OllamaMessage
  or_Done :: bool

text \<open>
  \<^verbatim>\<open>OllamaConfig\<close> (and \<^verbatim>\<open>ollama.Config\<close>); the provider struct holds the
  configuration and an HTTP client whose only setting is the configured timeout.
\<close>

record OllamaConfig =
  BaseURL :: string
  Model :: string
  Timeout :: nat

record OllamaProvider =
  config :: OllamaConfig

text \<open>\<^verbatim>\<open>LLMResponse\<close> with its \<^verbatim>\<open>UsageInfo\<close> (\<^verbatim>\<open>providers.ChatResponse\<close> has the same fields).\<close>

record UsageInfo =
  PromptTokens :: int
  CompletionTokens :: int
  TotalTokens :: int

record LLMResponse =
  lr_Content :: string
  lr_FinishReason :: string
  lr_Usage :: UsageInfo

text \<open>
  \<^verbatim>\<open>StreamChunk\<close>: content, the done flag, and an error that is \<^verbatim>\<open>nil\<close>
  (\<open>None\<close>) or set.
\<close>

record StreamChunk =
  chunk_Content :: string
  chunk_Done :: bool
  chunk_Error :: "string option"

text \<open>
  A \<^verbatim>\<open>context.Context\<close>, as the sources build them: the background context, the
  context of an incoming HTTP request, and a context with a timeout in seconds.
\<close>

datatype Context = Background | RequestContext | WithTimeout Context nat

text \<open>
  An HTTP request as \<^verbatim>\<open>http.NewRequestWithContext\<close> receives it. The body is
  the value handed to \<^verbatim>\<open>json.Marshal\<close> (\<open>None\<close> for the \<^verbatim>\<open>nil\<close> body of a
  GET); marshalling a struct of strings and a bool cannot fail.
\<close>

record http_request =
  req_ctx :: Context
  req_method :: string
  req_url :: string
  req_header :: "(string \<times> string) list"
  req_body :: "OllamaRequest option"

text \<open>
  What becomes of a request: \<^verbatim>\<open>NewRequestWithContext\<close> refuses it, \<^verbatim>\<open>Do\<close>
  fails (upstream unreachable, timeout, cancelled context), or a response arrives with a
  status code and a body.
\<close>

datatype http_outcome =
    CreateFailed string
  | SendFailed string
  | Response int string

text \<open>
  The world outside the process. \<open>dec_chat body\<close> lists what successive
  \<^verbatim>\<open>Decode\<close> calls of one \<^verbatim>\<open>json.Decoder\<close> on \<open>body\<close> return before the
  decoder reports \<^verbatim>\<open>io.EOF\<close>: a decoded value, or an error other than EOF (a
  syntax error, an unexpected EOF inside a value, a failed read of a dropped
  connection). \<open>dec_tags\<close> decodes the model listing into the model names.
\<close>

record upstream =
  http :: "http_request \<Rightarrow> http_outcome"
  dec_chat :: "string \<Rightarrow> (string + OllamaResponse) list"
  dec_tags :: "string \<Rightarrow> string + string list"

subsection \<open>Formatting\<close>

text \<open>The verb \<^verbatim>\<open>%d\<close> of \<^verbatim>\<open>fmt\<close>: a decimal numeral, with a sign when negative.\<close>

fun nat_digits :: "nat \<Rightarrow> string" where
  "nat_digits n =
     (if n < 10 then [''0123456789'' ! n]
      else nat_digits (n div 10) @ [''0123456789'' ! (n mod 10)])"

declare nat_digits.simps [simp del]

definition fmt_d :: "int \<Rightarrow> string" where
  "fmt_d i = (if i < 0 then CHR ''-'' # nat_digits (nat (- i)) else nat_digits (nat i))"

section \<open>The Ollama providers\<close>

text \<open>The loop that copies \<^verbatim>\<open>providers.Message\<close> values into Ollama's format.\<close>

definition to_ollama :: "Message list \<Rightarrow> OllamaMessage list" where
  "to_ollama messages = map (\<lambda>msg. \<lparr>om_Role = Role msg, om_Content = Content msg\<rparr>) messages"

text \<open>
  The POST to \<^verbatim>\<open><BaseURL>/api/chat\<close> that \<^verbatim>\<open>Chat\<close> and \<^verbatim>\<open>StreamChat\<close>
  build, with its \<^verbatim>\<open>Content-Type\<close> header.
\<close>

definition chat_post :: "Context \<Rightarrow> OllamaConfig \<Rightarrow> string \<Rightarrow> Message list \<Rightarrow> bool \<Rightarrow> http_request" where
  "chat_post ctx cfg model messages stream =
     \<lparr>req_ctx = ctx, req_method = ''POST'', req_url = BaseURL cfg @ ''/api/chat'',
      req_header = [(''Content-Type'', ''application/json'')],
      req_body = Some \<lparr>oq_Model = model, oq_Messages = to_ollama messages, oq_Stream = stream\<rparr>\<rparr>"

text \<open>The response both \<^verbatim>\<open>Chat\<close> methods build from a decoded answer.\<close>

definition stop_response :: "OllamaResponse \<Rightarrow> LLMResponse" where
  "stop_response r =
     \<lparr>lr_Content = om_Content (or_Message r), lr_FinishReason = ''stop'',
      lr_Usage = \<lparr>PromptTokens = 0, CompletionTokens = 0, TotalTokens = 0\<rparr>\<rparr>"

text \<open>
  The part of \<^verbatim>\<open>Chat\<close> after the request is built, shared by both packages:
  send, check the status, decode one value. Beside the result it returns the
  requests handed to \<^verbatim>\<open>httpClient.Do\<close>.
\<close>

definition chat_round :: "upstream \<Rightarrow> http_request \<Rightarrow> (string + LLMResponse) \<times> http_request list" where
  "chat_round up req =
     (case http up req of
        CreateFailed e \<Rightarrow> (Inl (''failed to create request: '' @ e), [])
      | SendFailed e \<Rightarrow> (Inl (''failed to send request: '' @ e), [req])
      | Response status body \<Rightarrow>
          if status \<noteq> 200
          then (Inl (''ollama returned status '' @ fmt_d status @ '': '' @ body), [req])
          else (case dec_chat up body of
                  [] \<Rightarrow> (Inl ''failed to decode response: EOF'', [req])
                | Inl e # _ \<Rightarrow> (Inl (''failed to decode response: '' @ e), [req])
                | Inr ollamaResp # _ \<Rightarrow> (Inr (stop_response ollamaResp), [req])))"

text \<open>
  \<^verbatim>\<open>(*OllamaProvider).Chat\<close> of \<^verbatim>\<open>pkg/providers/ollama.go\<close>. Its
  \<^verbatim>\<open>tools\<close> and \<^verbatim>\<open>options\<close> arguments are never read.
\<close>

definition OllamaProvider_Chat ::
  "upstream \<Rightarrow> OllamaProvider \<Rightarrow> Context \<Rightarrow> Message list \<Rightarrow> string
     \<Rightarrow> (string + LLMResponse) \<times> http_request list" where
  "OllamaProvider_Chat up p ctx messages model =
     (if length messages = 0 then (Inl ''no messages provided'', [])
      else let model' = (if model = [] then Model (config p) else model)
           in chat_round up (chat_post ctx (config p) model' messages False))"

text \<open>
  \<^verbatim>\<open>(*Provider).Chat\<close> of \<^verbatim>\<open>pkg/providers/ollama/ollama.go\<close>; \<open>messages\<close>
  is \<^verbatim>\<open>req.Messages\<close>, the one field of the request it reads. The model is
  always the configured one.
\<close>

definition Provider_Chat ::
  "upstream \<Rightarrow> OllamaProvider \<Rightarrow> Context \<Rightarrow> Message list
     \<Rightarrow> (string + LLMResponse) \<times> http_request list" where
  "Provider_Chat up p ctx messages =
     (if length messages = 0 then (Inl ''no messages provided'', [])
      else chat_round up (chat_post ctx (config p) (Model (config p)) messages False))"

text \<open>
  The goroutine of \<^verbatim>\<open>StreamChat\<close>: the chunks it sends on the channel before it
  closes it, in order. The end of the list of decode results is \<^verbatim>\<open>io.EOF\<close>,
  where the goroutine returns and sends nothing.
\<close>

fun stream_loop :: "(string + OllamaResponse) list \<Rightarrow> StreamChunk list" where
  "stream_loop [] = []"
| "stream_loop (Inl e # rest) =
     [\<lparr>chunk_Content = [], chunk_Done = False, chunk_Error = Some (''decode error: '' @ e)\<rparr>]"
| "stream_loop (Inr ollamaResp # rest) =
     (if or_Done ollamaResp
      then [\<lparr>chunk_Content = [], chunk_Done = True, chunk_Error = None\<rparr>]
      else \<lparr>chunk_Content = om_Content (or_Message ollamaResp), chunk_Done = False,
             chunk_Error = None\<rparr> # stream_loop rest)"

text \<open>
  \<^verbatim>\<open>(*Provider).StreamChat\<close> of \<^verbatim>\<open>pkg/providers/ollama/ollama.go\<close>. It returns
  an error and no channel, or the channel, given here as the list of chunks a
  consumer that drains it receives before it is closed.
\<close>

definition Provider_StreamChat ::
  "upstream \<Rightarrow> OllamaProvider \<Rightarrow> Context \<Rightarrow> Message list
     \<Rightarrow> (string + StreamChunk list) \<times> http_request list" where
  "Provider_StreamChat up p ctx messages =
     (if length messages = 0 then (Inl ''no messages provided'', [])
      else let req = chat_post ctx (config p) (Model (config p)) messages True
           in case http up req of
                CreateFailed e \<Rightarrow> (Inl (''failed to create request: '' @ e), [])
              | SendFailed e \<Rightarrow> (Inl (''failed to send request: '' @ e), [req])
              | Response status body \<Rightarrow>
                  if status \<noteq> 200
                  then (Inl (''ollama returned status '' @ fmt_d status @ '': '' @ body), [req])
                  else (Inr (stream_loop (dec_chat up body)), [req]))"

text \<open>
  \<^verbatim>\<open>ListModels\<close>, the same in both packages: a GET of \<^verbatim>\<open><BaseURL>/api/tags\<close>.
  On success the result is a slice made with \<^verbatim>\<open>make\<close>, never \<^verbatim>\<open>nil\<close>.
\<close>

definition OllamaProvider_ListModels ::
  "upstream \<Rightarrow> OllamaProvider \<Rightarrow> Context \<Rightarrow> string + string list" where
  "OllamaProvider_ListModels up p ctx =
     (case http up \<lparr>req_ctx = ctx, req_method = ''GET'',
                     req_url = BaseURL (config p) @ ''/api/tags'',
                     req_header = [], req_body = None\<rparr> of
        CreateFailed e \<Rightarrow> Inl (''failed to create request: '' @ e)
      | SendFailed e \<Rightarrow> Inl (''failed to send request: '' @ e)
      | Response status body \<Rightarrow>
          if status \<noteq> 200 then Inl (''ollama returned status '' @ fmt_d status)
          else (case dec_tags up body of
                  Inl e \<Rightarrow> Inl (''failed to decode response: '' @ e)
                | Inr models \<Rightarrow> Inr models))"

text \<open>A chunk that ends a stream: the done marker or an error.\<close>

definition is_terminal :: "StreamChunk \<Rightarrow> bool" where
  "is_terminal c = (chunk_Done c \<or> chunk_Error c \<noteq> None)"

text \<open>An upstream unit on which the streaming loop stops: a decode error or a done flag.\<close>

fun stops :: "string + OllamaResponse \<Rightarrow> bool" where
  "stops (Inl e) = True"
| "stops (Inr r) = or_Done r"

subsection \<open>The provider interface\<close>

text \<open>
  The \<^verbatim>\<open>LLMProvider\<close> interface, as far as the web UI calls it: \<^verbatim>\<open>Chat\<close>
  (without the \<^verbatim>\<open>tools\<close> and \<^verbatim>\<open>options\<close> it passes as \<^verbatim>\<open>nil\<close>),
  \<^verbatim>\<open>GetDefaultModel\<close>, and \<^verbatim>\<open>ListModels\<close> when the dynamic type has that
  method (the type assertion in \<^verbatim>\<open>initializeProviders\<close>). A method that does
  I/O takes the world as its first argument.
\<close>

record LLMProvider =
  lp_Chat :: "upstream \<Rightarrow> Context \<Rightarrow> Message list \<Rightarrow> string \<Rightarrow> string + LLMResponse"
  lp_GetDefaultModel :: string
  lp_ListModels :: "(upstream \<Rightarrow> Context \<Rightarrow> string + string list) option"

definition DefaultOllamaBaseURL :: string where
  "DefaultOllamaBaseURL = ''http://localhost:11434''"

definition DefaultOllamaModel :: string where
  "DefaultOllamaModel = ''llama3.2''"

text \<open>\<^verbatim>\<open>(*OllamaProvider).GetDefaultModel\<close>.\<close>

definition OllamaProvider_GetDefaultModel :: "OllamaProvider \<Rightarrow> string" where
  "OllamaProvider_GetDefaultModel p = Model (config p)"

text \<open>An \<^verbatim>\<open>*OllamaProvider\<close> seen through the interface.\<close>

definition as_LLMProvider :: "OllamaProvider \<Rightarrow> LLMProvider" where
  "as_LLMProvider p =
     \<lparr>lp_Chat = (\<lambda>up ctx messages model. fst (OllamaProvider_Chat up p ctx messages model)),
      lp_GetDefaultModel = OllamaProvider_GetDefaultModel p,
      lp_ListModels = Some (\<lambda>up ctx. OllamaProvider_ListModels up p ctx)\<rparr>"

text \<open>\<^verbatim>\<open>CreateOllamaProvider\<close>; its error is always \<^verbatim>\<open>nil\<close>. The timeout is in seconds.\<close>

definition CreateOllamaProvider :: "string \<Rightarrow> string + LLMProvider" where
  "CreateOllamaProvider baseURL =
     Inr (as_LLMProvider
       \<lparr>config = \<lparr>BaseURL = (if baseURL = [] then DefaultOllamaBaseURL else baseURL),
                   Model = DefaultOllamaModel, Timeout = 120\<rparr>\<rparr>)"

section \<open>The session store\<close>

text \<open>
  Package \<^verbatim>\<open>pkg/session\<close> (\<^verbatim>\<open>SessionManager\<close> with \<^verbatim>\<open>GetHistory\<close>,
  \<^verbatim>\<open>AddMessage\<close>, \<^verbatim>\<open>Save\<close>) is not among the sources; the handlers below only
  call it. Its model follows the Session Store of the spec (section 4.3).
\<close>

text \<open>
  Modelled from the spec: the store of \<^verbatim>\<open>pkg/session\<close>, absent from the sources. It
  owns per-conversation message history, an in-memory sequence of Messages per key
  plus a durable representation.
\<close>

record SessionManager =
  mem :: "string \<rightharpoonup> Message list"
  disk :: "string \<rightharpoonup> Message list"

text \<open>
  Modelled from the spec: \<^verbatim>\<open>GetHistory\<close> of \<^verbatim>\<open>pkg/session\<close>, absent from the
  sources. \<open>history(key)\<close> returns the ordered Messages, an empty sequence for an
  unseen key.
\<close>

definition GetHistory :: "SessionManager \<Rightarrow> string \<Rightarrow> Message list" where
  "GetHistory sm key = (case mem sm key of None \<Rightarrow> [] | Some ms \<Rightarrow> ms)"

text \<open>
  Modelled from the spec: \<^verbatim>\<open>AddMessage\<close> of \<^verbatim>\<open>pkg/session\<close>, absent from the
  sources. \<open>append(key, role, content)\<close> adds one Message to the in-memory sequence
  for the key, creating the in-memory session if absent; it does not by itself
  guarantee durability.
\<close>

definition AddMessage :: "SessionManager \<Rightarrow> string \<Rightarrow> string \<Rightarrow> string \<Rightarrow> SessionManager" where
  "AddMessage sm key role content =
     sm\<lparr>mem := (mem sm)(key \<mapsto> GetHistory sm key @ [\<lparr>Role = role, Content = content\<rparr>])\<rparr>"

text \<open>
  Modelled from the spec: \<^verbatim>\<open>Save\<close> of \<^verbatim>\<open>pkg/session\<close>, absent from the sources.
  \<open>persist(key)\<close> writes the current in-memory sequence for the key to durable
  storage as a single unit. Both handlers drop the error it may return.
\<close>

definition Save :: "SessionManager \<Rightarrow> string \<Rightarrow> SessionManager" where
  "Save sm key =
     (case mem sm key of None \<Rightarrow> sm | Some ms \<Rightarrow> sm\<lparr>disk := (disk sm)(key \<mapsto> ms)\<rparr>)"

text \<open>
  Modelled from the spec: \<^verbatim>\<open>NewSessionManager\<close> of \<^verbatim>\<open>pkg/session\<close>, absent from
  the sources, on a storage path that holds no session yet.
\<close>

definition NewSessionManager :: SessionManager where
  "NewSessionManager = \<lparr>mem = Map.empty, disk = Map.empty\<rparr>"

section \<open>The web UI server\<close>

text \<open>The wire types of \<^verbatim>\<open>cmd/webui\<close>.\<close>

record ChatMessage =
  cm_Role :: string
  cm_Content :: string
  cm_Timestamp :: int

record ChatRequest =
  cr_Messages :: "ChatMessage list"
  cr_Provider :: string
  cr_Model :: string
  cr_SystemPrompt :: string
  cr_SessionKey :: string

text \<open>
  \<^verbatim>\<open>ChatResponse\<close> of \<^verbatim>\<open>cmd/webui\<close>, the streamed unit a client reads: content,
  the done flag, and an error text (empty when there is none).
\<close>

record ChatResponse =
  resp_Content :: string
  resp_Done :: bool
  resp_Error :: string

record StreamChatRequest =
  scr_Messages :: "Message list"
  scr_Model :: string

record ProviderWrapper =
  pw_name :: string
  pw_provider :: LLMProvider
  pw_listModelsFn :: "(upstream \<Rightarrow> Context \<Rightarrow> string + string list) option"

definition ProviderWrapper_Name :: "ProviderWrapper \<Rightarrow> string" where
  "ProviderWrapper_Name p = pw_name p"

text \<open>
  \<^verbatim>\<open>(*ProviderWrapper).StreamChat\<close>: the error it returns is always \<^verbatim>\<open>nil\<close>;
  the goroutine calls \<^verbatim>\<open>Chat\<close> once and sends one chunk on the channel before
  closing it.
\<close>

definition ProviderWrapper_StreamChat ::
  "upstream \<Rightarrow> ProviderWrapper \<Rightarrow> Context \<Rightarrow> StreamChatRequest \<Rightarrow> string + StreamChunk list" where
  "ProviderWrapper_StreamChat up p ctx req =
     Inr (case lp_Chat (pw_provider p) up ctx (scr_Messages req) (scr_Model req) of
            Inl err \<Rightarrow> [\<lparr>chunk_Content = [], chunk_Done = False, chunk_Error = Some err\<rparr>]
          | Inr resp \<Rightarrow>
              [\<lparr>chunk_Content = lr_Content resp, chunk_Done = True, chunk_Error = None\<rparr>])"

definition ProviderWrapper_GetDefaultModel :: "ProviderWrapper \<Rightarrow> string" where
  "ProviderWrapper_GetDefaultModel p = lp_GetDefaultModel (pw_provider p)"

definition ProviderWrapper_ListModels ::
  "upstream \<Rightarrow> ProviderWrapper \<Rightarrow> Context \<Rightarrow> string + string list" where
  "ProviderWrapper_ListModels up p ctx =
     (case pw_listModelsFn p of
        Some f \<Rightarrow> f up ctx
      | None \<Rightarrow> Inr [lp_GetDefaultModel (pw_provider p)])"

subsection \<open>The provider registry\<close>

text \<open>
  \<^verbatim>\<open>providerMap\<close>: a Go map from names to wrappers, kept as an association list
  with one entry per key. Go leaves the order of a map's keys open; nothing below
  depends on it. The map starts empty (\<^verbatim>\<open>make\<close>) and only
  \<^verbatim>\<open>initializeProviders\<close> writes to it.
\<close>

type_synonym providerMap = "(string \<times> ProviderWrapper) list"

definition getAvailableProviders :: "providerMap \<Rightarrow> string list" where
  "getAvailableProviders pm = map fst pm"

definition getProvider :: "providerMap \<Rightarrow> string \<Rightarrow> ProviderWrapper option" where
  "getProvider pm name = map_of pm name"

fun first_registered :: "providerMap \<Rightarrow> string list \<Rightarrow> ProviderWrapper option" where
  "first_registered pm [] = None"
| "first_registered pm (name # priority) =
     (case map_of pm name of Some p \<Rightarrow> Some p | None \<Rightarrow> first_registered pm priority)"

definition getDefaultProvider :: "providerMap \<Rightarrow> ProviderWrapper option" where
  "getDefaultProvider pm = first_registered pm [''ollama'']"

text \<open>
  \<^verbatim>\<open>initializeProviders\<close>; \<open>apiBase\<close> is \<^verbatim>\<open>cfg.Providers.VLLM.APIBase\<close>. The
  probe's error is dropped: a failed listing leaves \<^verbatim>\<open>models\<close> \<^verbatim>\<open>nil\<close>. Log
  lines are not kept.
\<close>

definition initializeProviders :: "upstream \<Rightarrow> string \<Rightarrow> providerMap \<Rightarrow> providerMap" where
  "initializeProviders up apiBase pm =
     (let ollamaBaseURL = (if apiBase \<noteq> [] then apiBase else ''http://localhost:11434'')
      in case CreateOllamaProvider ollamaBaseURL of
           Inl err \<Rightarrow> pm
         | Inr ollamaProvider \<Rightarrow>
             (case lp_ListModels ollamaProvider of
                None \<Rightarrow> pm
              | Some ollamaLister \<Rightarrow>
                  (case ollamaLister up (WithTimeout Background 2) of
                     Inl err \<Rightarrow> pm
                   | Inr models \<Rightarrow>
                       if length models > 0
                       then AList.update ''ollama''
                              \<lparr>pw_name = ''ollama'', pw_provider = ollamaProvider,
                               pw_listModelsFn = Some ollamaLister\<rparr> pm
                       else pm)))"

subsection \<open>The event-stream binding\<close>

text \<open>
  What \<^verbatim>\<open>handleChat\<close> writes to the client: either one \<^verbatim>\<open>http.Error\<close> reply
  (its text and status code), or an event stream. An event is the line
  \<^verbatim>\<open>data: <json>\<close> with a marshalled \<^verbatim>\<open>ChatResponse\<close>, or the line
  \<^verbatim>\<open>data: {"error": "<text>"}\<close> printed with \<^verbatim>\<open>%s\<close>.
\<close>

datatype sse_event = Data ChatResponse | ErrorData string

datatype http_reply = HttpError string int | EventStream "sse_event list"

text \<open>
  The loop over \<^verbatim>\<open>req.Messages\<close> that appends each incoming message to the
  working history and to the session store.
\<close>

fun append_turn ::
  "string \<Rightarrow> ChatMessage list \<Rightarrow> Message list \<times> SessionManager \<Rightarrow> Message list \<times> SessionManager" where
  "append_turn sessionKey [] (history, sessions) = (history, sessions)"
| "append_turn sessionKey (msg # rest) (history, sessions) =
     append_turn sessionKey rest
       (history @ [\<lparr>Role = cm_Role msg, Content = cm_Content msg\<rparr>],
        AddMessage sessions sessionKey (cm_Role msg) (cm_Content msg))"

text \<open>
  The loop \<^verbatim>\<open>for chunk := range chunkChan\<close> of \<^verbatim>\<open>handleChat\<close>, with
  \<^verbatim>\<open>fullResponse\<close> as an accumulator. It returns the session store and the events
  written. Write errors of \<^verbatim>\<open>Fprintf\<close> are not looked at.
\<close>

fun sse_loop ::
  "string \<Rightarrow> StreamChunk list \<Rightarrow> string \<Rightarrow> SessionManager \<Rightarrow> SessionManager \<times> sse_event list" where
  "sse_loop sessionKey [] fullResponse sessions = (sessions, [])"
| "sse_loop sessionKey (chunk # rest) fullResponse sessions =
     (case chunk_Error chunk of
        Some err \<Rightarrow> (sessions, [ErrorData err])
      | None \<Rightarrow>
          (let response = \<lparr>resp_Content = chunk_Content chunk, resp_Done = chunk_Done chunk,
                            resp_Error = []\<rparr>;
               fullResponse' = fullResponse @ chunk_Content chunk
           in if chunk_Done chunk
              then ((if fullResponse' \<noteq> []
                     then Save (AddMessage sessions sessionKey ''assistant'' fullResponse') sessionKey
                     else sessions),
                    [Data response])
              else (case sse_loop sessionKey rest fullResponse' sessions of
                      (sessions', events) \<Rightarrow> (sessions', Data response # events))))"

text \<open>
  \<^verbatim>\<open>handleChat\<close>. \<open>body\<close> is the decoded request body (\<open>None\<close> when it does
  not decode), \<open>stamp\<close> the clock reading in base 36 that names a session without a
  key, \<open>flusher\<close> whether the response writer is an \<^verbatim>\<open>http.Flusher\<close>.
\<close>

definition handleChat ::
  "upstream \<Rightarrow> providerMap \<Rightarrow> SessionManager \<Rightarrow> string \<Rightarrow> ChatRequest option \<Rightarrow> string \<Rightarrow> bool
     \<Rightarrow> SessionManager \<times> http_reply" where
  "handleChat up pm sessions method body stamp flusher =
     (if method \<noteq> ''POST'' then (sessions, HttpError ''Method not allowed'' 405)
      else case body of
        None \<Rightarrow> (sessions, HttpError ''Invalid request'' 400)
      | Some req \<Rightarrow>
          (let sessionKey = (if cr_SessionKey req = [] then ''webui:'' @ stamp else cr_SessionKey req);
               providerName =
                 (if cr_Provider req = []
                  then (case getDefaultProvider pm of
                          Some p \<Rightarrow> ProviderWrapper_Name p
                        | None \<Rightarrow> [])
                  else cr_Provider req)
           in case getProvider pm providerName of
                None \<Rightarrow>
                  (sessions,
                   HttpError (''Provider '' @ [CHR 0x27] @ providerName @ [CHR 0x27] @ '' not available'') 400)
              | Some provider \<Rightarrow>
                  (case append_turn sessionKey (cr_Messages req)
                          (GetHistory sessions sessionKey, sessions) of
                     (history, sessions1) \<Rightarrow>
                       (let history' =
                              (if cr_SystemPrompt req \<noteq> []
                               then \<lparr>Role = ''system'', Content = cr_SystemPrompt req\<rparr> # history
                               else history);
                            model = (if cr_Model req = []
                                     then ProviderWrapper_GetDefaultModel provider
                                     else cr_Model req);
                            chatReq = \<lparr>scr_Messages = history', scr_Model = model\<rparr>
                        in if \<not> flusher
                           then (sessions1, HttpError ''Streaming not supported'' 500)
                           else (case ProviderWrapper_StreamChat up provider RequestContext chatReq of
                                   Inl err \<Rightarrow> (sessions1, EventStream [ErrorData err])
                                 | Inr chunkChan \<Rightarrow>
                                     (case sse_loop sessionKey chunkChan [] sessions1 of
                                        (sessions2, events) \<Rightarrow> (sessions2, EventStream events)))))))"

subsection \<open>The WebSocket binding\<close>

text \<open>
  The connection: the frames delivered so far and the number of writes attempted.
  \<^verbatim>\<open>WriteJSON\<close> can fail (the peer is gone); \<open>ok i\<close> says whether the write
  attempted after \<open>i\<close> earlier ones succeeds.
\<close>

record conn =
  written :: "ChatResponse list"
  attempts :: nat

definition WriteJSON :: "(nat \<Rightarrow> bool) \<Rightarrow> conn \<Rightarrow> ChatResponse \<Rightarrow> conn \<times> bool" where
  "WriteJSON ok c v =
     (if ok (attempts c)
      then (\<lparr>written = written c @ [v], attempts = Suc (attempts c)\<rparr>, True)
      else (\<lparr>written = written c, attempts = Suc (attempts c)\<rparr>, False))"

text \<open>The loop \<^verbatim>\<open>for chunk := range chunkChan\<close> of \<^verbatim>\<open>handleWebSocket\<close>.\<close>

fun ws_loop ::
  "(nat \<Rightarrow> bool) \<Rightarrow> string \<Rightarrow> StreamChunk list \<Rightarrow> string \<Rightarrow> SessionManager \<times> conn
     \<Rightarrow> SessionManager \<times> conn" where
  "ws_loop ok sessionKey [] fullResponse (sessions, c) = (sessions, c)"
| "ws_loop ok sessionKey (chunk # rest) fullResponse (sessions, c) =
     (case chunk_Error chunk of
        Some err \<Rightarrow>
          (sessions, fst (WriteJSON ok c \<lparr>resp_Content = [], resp_Done = False, resp_Error = err\<rparr>))
      | None \<Rightarrow>
          (case WriteJSON ok c \<lparr>resp_Content = chunk_Content chunk, resp_Done = chunk_Done chunk,
                                 resp_Error = []\<rparr> of
             (c', False) \<Rightarrow> (sessions, c')
           | (c', True) \<Rightarrow>
               (let fullResponse' = fullResponse @ chunk_Content chunk
                in if chunk_Done chunk
                   then ((if fullResponse' \<noteq> []
                          then Save (AddMessage sessions sessionKey ''assistant'' fullResponse') sessionKey
                          else sessions),
                         c')
                   else ws_loop ok sessionKey rest fullResponse' (sessions, c'))))"

text \<open>
  One pass of the read loop of \<^verbatim>\<open>handleWebSocket\<close>, for a request that
  \<^verbatim>\<open>ReadJSON\<close> has decoded.
\<close>

definition handleWebSocket_turn ::
  "upstream \<Rightarrow> providerMap \<Rightarrow> (nat \<Rightarrow> bool) \<Rightarrow> ChatRequest \<Rightarrow> string \<Rightarrow> SessionManager \<times> conn
     \<Rightarrow> SessionManager \<times> conn" where
  "handleWebSocket_turn up pm ok req stamp st =
     (case st of (sessions, c) \<Rightarrow>
       (let sessionKey = (if cr_SessionKey req = [] then ''webui:'' @ stamp else cr_SessionKey req);
            providerName =
              (if cr_Provider req = []
               then (case getDefaultProvider pm of
                       Some p \<Rightarrow> ProviderWrapper_Name p
                     | None \<Rightarrow> [])
               else cr_Provider req)
        in case getProvider pm providerName of
             None \<Rightarrow>
               (sessions,
                fst (WriteJSON ok c
                  \<lparr>resp_Content = [], resp_Done = False,
                   resp_Error = ''Provider '' @ [CHR 0x27] @ providerName @ [CHR 0x27] @ '' not available''\<rparr>))
           | Some provider \<Rightarrow>
               (case append_turn sessionKey (cr_Messages req)
                       (GetHistory sessions sessionKey, sessions) of
                  (history, sessions1) \<Rightarrow>
                    (let history' =
                           (if cr_SystemPrompt req \<noteq> []
                            then \<lparr>Role = ''system'', Content = cr_SystemPrompt req\<rparr> # history
                            else history);
                         model = (if cr_Model req = []
                                  then ProviderWrapper_GetDefaultModel provider
                                  else cr_Model req);
                         chatReq = \<lparr>scr_Messages = history', scr_Model = model\<rparr>
                     in case ProviderWrapper_StreamChat up provider Background chatReq of
                          Inl err \<Rightarrow>
                            (sessions1,
                             fst (WriteJSON ok c \<lparr>resp_Content = [], resp_Done = False, resp_Error = err\<rparr>))
                        | Inr chunkChan \<Rightarrow> ws_loop ok sessionKey chunkChan [] (sessions1, c)))))"

text \<open>
  \<^verbatim>\<open>handleWebSocket\<close>: after the upgrade, one turn per request read, until a read
  fails. \<open>reads\<close> are the requests read before that, each with the clock reading at
  its turn.
\<close>

fun ws_turns ::
  "upstream \<Rightarrow> providerMap \<Rightarrow> (nat \<Rightarrow> bool) \<Rightarrow> (ChatRequest \<times> string) list \<Rightarrow> SessionManager \<times> conn
     \<Rightarrow> SessionManager \<times> conn" where
  "ws_turns up pm ok [] st = st"
| "ws_turns up pm ok ((req, stamp) # reads) st =
     ws_turns up pm ok reads (handleWebSocket_turn up pm ok req stamp st)"

definition handleWebSocket ::
  "upstream \<Rightarrow> providerMap \<Rightarrow> (nat \<Rightarrow> bool) \<Rightarrow> bool \<Rightarrow> (ChatRequest \<times> string) list \<Rightarrow> SessionManager
     \<Rightarrow> SessionManager \<times> conn" where
  "handleWebSocket up pm ok upgraded reads sessions =
     (if \<not> upgraded then (sessions, \<lparr>written = [], attempts = 0\<rparr>)
      else ws_turns up pm ok reads (sessions, \<lparr>written = [], attempts = 0\<rparr>))"

subsection \<open>Reading the two framings\<close>





section \<open>Test doubles\<close>

text \<open>An upstream that answers every request alike.\<close>

definition fixed_upstream ::
  "http_outcome \<Rightarrow> (string + OllamaResponse) list \<Rightarrow> string + string list \<Rightarrow> upstream" where
  "fixed_upstream outcome units tags =
     \<lparr>http = (\<lambda>req. outcome), dec_chat = (\<lambda>body. units), dec_tags = (\<lambda>body. tags)\<rparr>"

text \<open>One decoded unit of an Ollama answer.\<close>

definition unit_of :: "string \<Rightarrow> bool \<Rightarrow> OllamaResponse" where
  "unit_of text done =
     \<lparr>or_Model = ''llama3.2'', or_CreatedAt = 0,
      or_Message = \<lparr>om_Role = ''assistant'', om_Content = text\<rparr>, or_Done = done\<rparr>"

text \<open>A local Ollama provider as \<^verbatim>\<open>CreateOllamaProvider\<close> configures it.\<close>

definition local_ollama :: OllamaProvider where
  "local_ollama = \<lparr>config = \<lparr>BaseURL = DefaultOllamaBaseURL, Model = DefaultOllamaModel, Timeout = 120\<rparr>\<rparr>"

text \<open>
  The wrapper \<^verbatim>\<open>initializeProviders\<close> builds around an Ollama provider, and the
  registry after a start-up at which the probe found a model.
\<close>

definition wrap :: "OllamaProvider \<Rightarrow> ProviderWrapper" where
  "wrap p =
     \<lparr>pw_name = ''ollama'', pw_provider = as_LLMProvider p,
      pw_listModelsFn = lp_ListModels (as_LLMProvider p)\<rparr>"

definition ollama_registry :: providerMap where
  "ollama_registry = [(''ollama'', wrap local_ollama)]"

text \<open>The user message "hi", as a provider message and as a request on session \<open>s1\<close>.\<close>

definition hi :: Message where
  "hi = \<lparr>Role = ''user'', Content = ''hi''\<rparr>"

definition hi_request :: "string \<Rightarrow> ChatRequest" where
  "hi_request provider =
     \<lparr>cr_Messages = [\<lparr>cm_Role = ''user'', cm_Content = ''hi'', cm_Timestamp = 0\<rparr>],
      cr_Provider = provider, cr_Model = [], cr_SystemPrompt = [], cr_SessionKey = ''s1''\<rparr>"

text \<open>Upstreams that answer 200 with a fixed run of decoded units.\<close>

definition guard_upstream :: upstream where
  "guard_upstream = fixed_upstream (Response 200 []) [Inr (unit_of ''hello'' True)] (Inr [])"

definition par_upstream :: upstream where
  "par_upstream = fixed_upstream (Response 200 []) [Inr (unit_of ''par'' False)] (Inr [])"

definition done_upstream :: upstream where
  "done_upstream = fixed_upstream (Response 200 [])
     [Inr (unit_of ''par'' False), Inr (unit_of [] True), Inr (unit_of ''late'' False)] (Inr [])"

definition empty_delta_upstream :: upstream where
  "empty_delta_upstream = fixed_upstream (Response 200 [])
     [Inr (unit_of [] False), Inr (unit_of [] True)] (Inr [])"


text \<open>An upstream that is not reachable, and one that answers 500.\<close>

definition down_upstream :: upstream where
  "down_upstream =
     fixed_upstream (SendFailed ''dial tcp 127.0.0.1:11434: connect: connection refused'') []
       (Inl ''EOF'')"


text \<open>
  The model listing \<^verbatim>\<open>initializeProviders\<close> performs at start-up: on the provider
  \<^verbatim>\<open>CreateOllamaProvider\<close> builds for the configured base URL, with a timeout of two
  seconds.
\<close>

definition startup_probe :: "upstream \<Rightarrow> string \<Rightarrow> string + string list" where
  "startup_probe up apiBase =
     OllamaProvider_ListModels up
       \<lparr>config = \<lparr>BaseURL = (if apiBase \<noteq> [] then apiBase else ''http://localhost:11434''),
                   Model = DefaultOllamaModel, Timeout = 120\<rparr>\<rparr>
       (WithTimeout Background 2)"

text \<open>
  Upstreams for the non-streaming call: one answers "hello" as one complete response,
  one answers with empty content.
\<close>

definition hello_upstream :: upstream where
  "hello_upstream = fixed_upstream (Response 200 []) [Inr (unit_of ''hello'' True)] (Inr [''llama3.2''])"

definition silent_upstream :: upstream where
  "silent_upstream = fixed_upstream (Response 200 []) [Inr (unit_of [] True)] (Inr [''llama3.2''])"




section \<open>The empty-message guard\<close>

lemma chat_round_not_guard: "fst (chat_round up req) \<noteq> Inl ''no messages provided''"
  by (simp add: chat_round_def split: http_outcome.split list.split sum.split)

lemma chat_round_sent:
  "(\<forall>e. http up req \<noteq> CreateFailed e) \<Longrightarrow> snd (chat_round up req) = [req]"
  by (simp add: chat_round_def split: http_outcome.split list.split sum.split)

text \<open>
  C10. With an empty message list, \<^verbatim>\<open>Chat\<close> of both packages and
  \<^verbatim>\<open>StreamChat\<close> return the error "no messages provided", whatever the context,
  and hand no request to the HTTP client. With a non-empty list none of them
  returns that error: each goes on to build its request, and unless request creation
  itself is refused, exactly that one POST reaches the HTTP client.
\<close>

theorem empty_messages_guard:
  "OllamaProvider_Chat up p ctx [] model = (Inl ''no messages provided'', [])
   \<and> Provider_Chat up p ctx [] = (Inl ''no messages provided'', [])
   \<and> Provider_StreamChat up p ctx [] = (Inl ''no messages provided'', [])
   \<and> (messages \<noteq> [] \<longrightarrow>
        fst (OllamaProvider_Chat up p ctx messages model) \<noteq> Inl ''no messages provided''
      \<and> fst (Provider_Chat up p ctx messages) \<noteq> Inl ''no messages provided''
      \<and> fst (Provider_StreamChat up p ctx messages) \<noteq> Inl ''no messages provided''
      \<and> ((\<forall>r e. http up r \<noteq> CreateFailed e) \<longrightarrow>
            snd (OllamaProvider_Chat up p ctx messages model)
              = [chat_post ctx (config p) (if model = [] then Model (config p) else model) messages False]
          \<and> snd (Provider_Chat up p ctx messages)
              = [chat_post ctx (config p) (Model (config p)) messages False]
          \<and> snd (Provider_StreamChat up p ctx messages)
              = [chat_post ctx (config p) (Model (config p)) messages True]))"
proof -
  have g1: "OllamaProvider_Chat up p ctx [] model = (Inl ''no messages provided'', [])"
    by (simp add: OllamaProvider_Chat_def)
  have g2: "Provider_Chat up p ctx [] = (Inl ''no messages provided'', [])"
    by (simp add: Provider_Chat_def)
  have g3: "Provider_StreamChat up p ctx [] = (Inl ''no messages provided'', [])"
    by (simp add: Provider_StreamChat_def)
  have n1: "fst (OllamaProvider_Chat up p ctx messages model) \<noteq> Inl ''no messages provided''"
    if "messages \<noteq> []"
    using that by (simp add: OllamaProvider_Chat_def Let_def chat_round_not_guard)
  have n2: "fst (Provider_Chat up p ctx messages) \<noteq> Inl ''no messages provided''"
    if "messages \<noteq> []"
    using that by (simp add: Provider_Chat_def chat_round_not_guard)
  have n3: "fst (Provider_StreamChat up p ctx messages) \<noteq> Inl ''no messages provided''"
    if "messages \<noteq> []"
    using that by (simp add: Provider_StreamChat_def Let_def split: http_outcome.split)
  have s1: "snd (OllamaProvider_Chat up p ctx messages model)
              = [chat_post ctx (config p) (if model = [] then Model (config p) else model) messages False]"
    if "messages \<noteq> []" "\<forall>r e. http up r \<noteq> CreateFailed e"
    using that by (simp add: OllamaProvider_Chat_def Let_def chat_round_sent)
  have s2: "snd (Provider_Chat up p ctx messages)
              = [chat_post ctx (config p) (Model (config p)) messages False]"
    if "messages \<noteq> []" "\<forall>r e. http up r \<noteq> CreateFailed e"
    using that by (simp add: Provider_Chat_def chat_round_sent)
  have s3: "snd (Provider_StreamChat up p ctx messages)
              = [chat_post ctx (config p) (Model (config p)) messages True]"
    if "messages \<noteq> []" "\<forall>r e. http up r \<noteq> CreateFailed e"
    using that by (simp add: Provider_StreamChat_def Let_def split: http_outcome.split)
  show ?thesis
    using g1 g2 g3 n1 n2 n3 s1 s2 s3 by blast
qed

theorem empty_messages_guard_witness:
  "[hi] \<noteq> []
   \<and> (\<forall>r e. http guard_upstream r \<noteq> CreateFailed e)
   \<and> fst (OllamaProvider_Chat guard_upstream local_ollama Background [hi] [])
       \<noteq> Inl ''no messages provided''
   \<and> fst (Provider_Chat guard_upstream local_ollama Background [hi])
       \<noteq> Inl ''no messages provided''
   \<and> fst (Provider_StreamChat guard_upstream local_ollama Background [hi])
       \<noteq> Inl ''no messages provided''
   \<and> snd (Provider_StreamChat guard_upstream local_ollama Background [hi])
       = [chat_post Background (config local_ollama) (Model (config local_ollama)) [hi] True]"
  using empty_messages_guard [of guard_upstream local_ollama Background "[]" "[hi]"]
  by (simp add: guard_upstream_def fixed_upstream_def)

section \<open>The streaming loop of the Ollama adapter\<close>

lemma stream_loop_butlast: "\<forall>c\<in>set (butlast (stream_loop us)). \<not> is_terminal c"
  by (induction us rule: stream_loop.induct) (auto simp: is_terminal_def)

lemma stream_loop_exclusive:
  "\<forall>c\<in>set (stream_loop us). \<not> (chunk_Done c \<and> chunk_Error c \<noteq> None)"
  by (induction us rule: stream_loop.induct) auto

lemma stream_loop_count:
  "length (filter is_terminal (stream_loop us)) = (if \<exists>u\<in>set us. stops u then 1 else 0)"
  by (induction us rule: stream_loop.induct) (auto simp: is_terminal_def)

lemma stream_loop_last:
  "\<exists>u\<in>set us. stops u \<Longrightarrow> stream_loop us \<noteq> [] \<and> is_terminal (last (stream_loop us))"
  by (induction us rule: stream_loop.induct) (auto simp: is_terminal_def)

lemma stream_loop_content:
  "c \<in> set (stream_loop us) \<Longrightarrow> \<not> is_terminal c \<Longrightarrow>
     \<exists>r. Inr r \<in> set us \<and> \<not> or_Done r \<and> chunk_Content c = om_Content (or_Message r)"
  by (induction us rule: stream_loop.induct) (auto simp: is_terminal_def split: if_splits)


lemma StreamChat_Inr:
  "fst (Provider_StreamChat up p ctx messages) = Inr s \<Longrightarrow>
     \<exists>body. messages \<noteq> []
       \<and> http up (chat_post ctx (config p) (Model (config p)) messages True) = Response 200 body
       \<and> s = stream_loop (dec_chat up body)"
  by (auto simp: Provider_StreamChat_def Let_def split: if_splits http_outcome.splits)

text \<open>
  C2, as the code has it. In every stream the Ollama streaming adapter produces, no
  chunk but the last is terminal, so a terminal chunk is the last element and no
  content follows it; no chunk is both a done marker and an error; and the stream
  holds exactly one terminal chunk when the upstream delivers a done flag or a decode
  error, and none at all when the upstream body ends (EOF) before either: the
  channel is then closed after the content chunks.
\<close>

theorem ollama_stream_terminal:
  assumes "fst (Provider_StreamChat up p ctx messages) = Inr s"
    and "http up (chat_post ctx (config p) (Model (config p)) messages True) = Response status body"
  shows "(\<forall>c\<in>set (butlast s). \<not> is_terminal c)
       \<and> (\<forall>c\<in>set s. \<not> (chunk_Done c \<and> chunk_Error c \<noteq> None))
       \<and> length (filter is_terminal s) = (if \<exists>u\<in>set (dec_chat up body). stops u then 1 else 0)
       \<and> ((\<exists>u\<in>set (dec_chat up body). stops u) \<longrightarrow> s \<noteq> [] \<and> is_terminal (last s))"
proof -
  from assms obtain body' where
    "http up (chat_post ctx (config p) (Model (config p)) messages True) = Response 200 body'"
    and s: "s = stream_loop (dec_chat up body')"
    using StreamChat_Inr by blast
  with assms(2) have "body' = body" by simp
  with s have "s = stream_loop (dec_chat up body)" by simp
  then show ?thesis
    using stream_loop_butlast stream_loop_exclusive stream_loop_count stream_loop_last
    by presburger
qed

theorem ollama_stream_terminal_witness:
  "fst (Provider_StreamChat done_upstream local_ollama Background [hi])
     = Inr [\<lparr>chunk_Content = ''par'', chunk_Done = False, chunk_Error = None\<rparr>,
            \<lparr>chunk_Content = [], chunk_Done = True, chunk_Error = None\<rparr>]
   \<and> http done_upstream (chat_post Background (config local_ollama) (Model (config local_ollama)) [hi] True)
       = Response 200 []
   \<and> length (filter is_terminal [\<lparr>chunk_Content = ''par'', chunk_Done = False, chunk_Error = None\<rparr>,
            \<lparr>chunk_Content = [], chunk_Done = True, chunk_Error = None\<rparr>]) = 1"
proof -
  have a: "fst (Provider_StreamChat done_upstream local_ollama Background [hi])
     = Inr [\<lparr>chunk_Content = ''par'', chunk_Done = False, chunk_Error = None\<rparr>,
            \<lparr>chunk_Content = [], chunk_Done = True, chunk_Error = None\<rparr>]"
    by (simp add: Provider_StreamChat_def done_upstream_def fixed_upstream_def unit_of_def hi_def)
  have b: "http done_upstream (chat_post Background (config local_ollama) (Model (config local_ollama)) [hi] True)
       = Response 200 []"
    by (simp add: done_upstream_def fixed_upstream_def)
  have c: "\<exists>u\<in>set (dec_chat done_upstream []). stops u"
    by (simp add: done_upstream_def fixed_upstream_def unit_of_def)
  from ollama_stream_terminal [OF a b] c show ?thesis
    using a b by simp
qed

text \<open>
  The upstream sends the content "par" and its body then ends: the adapter emits the
  one content chunk and closes the channel, with no terminal chunk at all.
\<close>

theorem ollama_stream_eof_counterexample:
  "fst (Provider_StreamChat par_upstream local_ollama Background [hi])
     = Inr [\<lparr>chunk_Content = ''par'', chunk_Done = False, chunk_Error = None\<rparr>]
   \<and> filter is_terminal [\<lparr>chunk_Content = ''par'', chunk_Done = False, chunk_Error = None\<rparr>] = []"
  by (simp add: Provider_StreamChat_def par_upstream_def fixed_upstream_def unit_of_def
      is_terminal_def hi_def)

lemma wrapper_stream_terminal:
  "ProviderWrapper_StreamChat up w ctx req = Inr s \<Longrightarrow> \<forall>c\<in>set s. is_terminal c"
  by (auto simp: ProviderWrapper_StreamChat_def is_terminal_def split: sum.splits)

lemma stream_loop_split:
  "stream_loop us =
     map (\<lambda>u. \<lparr>chunk_Content = (case u of Inl e \<Rightarrow> [] | Inr r \<Rightarrow> om_Content (or_Message r)),
               chunk_Done = False, chunk_Error = None\<rparr>)
       (takeWhile (\<lambda>u. \<not> stops u) us)
     @ stream_loop (dropWhile (\<lambda>u. \<not> stops u) us)"
  by (induction us rule: stream_loop.induct) auto

lemma stream_loop_stop_terminal:
  "filter (\<lambda>c. \<not> is_terminal c) (stream_loop (dropWhile (\<lambda>u. \<not> stops u) us)) = []"
  by (induction us rule: stream_loop.induct) (auto simp: is_terminal_def)

lemma stream_loop_deltas:
  "map chunk_Content (filter (\<lambda>c. \<not> is_terminal c) (stream_loop us)) =
     map (\<lambda>u. case u of Inl e \<Rightarrow> [] | Inr r \<Rightarrow> om_Content (or_Message r))
       (takeWhile (\<lambda>u. \<not> stops u) us)"
proof -
  have "filter (\<lambda>c. \<not> is_terminal c)
          (map (\<lambda>u. \<lparr>chunk_Content = (case u of Inl e \<Rightarrow> [] | Inr r \<Rightarrow> om_Content (or_Message r)),
               chunk_Done = False, chunk_Error = None\<rparr>) xs)
        = map (\<lambda>u. \<lparr>chunk_Content = (case u of Inl e \<Rightarrow> [] | Inr r \<Rightarrow> om_Content (or_Message r)),
               chunk_Done = False, chunk_Error = None\<rparr>) xs" for xs :: "(string + OllamaResponse) list"
    by (induction xs) (simp_all add: is_terminal_def)
  then show ?thesis
    by (subst stream_loop_split) (simp add: stream_loop_stop_terminal comp_def)
qed

text \<open>
  C7, as the code has it. The Ollama adapter forwards every content delta unchanged and
  drops none: the stream is one content chunk for each upstream unit decoded before the
  first done flag or decode error, in order and with that unit's message content,
  followed by what the loop sends at the stop. So the contents of the non-terminal
  chunks are exactly the upstream deltas before the stop, an empty delta included, and
  they are all non-empty provided the upstream's deltas are. The simulate-streaming
  wrapper emits terminal chunks only.
\<close>

theorem adapter_content_forwarded:
  assumes "fst (Provider_StreamChat up p ctx messages) = Inr s"
    and "http up (chat_post ctx (config p) (Model (config p)) messages True) = Response status body"
  shows "(\<forall>c\<in>set s. \<not> is_terminal c \<longrightarrow>
            (\<exists>r. Inr r \<in> set (dec_chat up body) \<and> \<not> or_Done r
                 \<and> chunk_Content c = om_Content (or_Message r)))
       \<and> ((\<forall>r. Inr r \<in> set (dec_chat up body) \<and> \<not> or_Done r \<longrightarrow> om_Content (or_Message r) \<noteq> [])
            \<longrightarrow> (\<forall>c\<in>set s. \<not> is_terminal c \<longrightarrow> chunk_Content c \<noteq> []))
       \<and> (\<forall>w ctx' req s'. ProviderWrapper_StreamChat up w ctx' req = Inr s'
            \<longrightarrow> (\<forall>c\<in>set s'. is_terminal c))
       \<and> s = map (\<lambda>u. \<lparr>chunk_Content = (case u of Inl e \<Rightarrow> [] | Inr r \<Rightarrow> om_Content (or_Message r)),
                       chunk_Done = False, chunk_Error = None\<rparr>)
               (takeWhile (\<lambda>u. \<not> stops u) (dec_chat up body))
             @ stream_loop (dropWhile (\<lambda>u. \<not> stops u) (dec_chat up body))
       \<and> map chunk_Content (filter (\<lambda>c. \<not> is_terminal c) s)
           = map (\<lambda>u. case u of Inl e \<Rightarrow> [] | Inr r \<Rightarrow> om_Content (or_Message r))
               (takeWhile (\<lambda>u. \<not> stops u) (dec_chat up body))"
proof -
  from assms obtain body' where
    "http up (chat_post ctx (config p) (Model (config p)) messages True) = Response 200 body'"
    and s: "s = stream_loop (dec_chat up body')"
    using StreamChat_Inr by blast
  with assms(2) have "body' = body" by simp
  with s have s': "s = stream_loop (dec_chat up body)" by simp
  have first: "\<forall>c\<in>set s. \<not> is_terminal c \<longrightarrow>
            (\<exists>r. Inr r \<in> set (dec_chat up body) \<and> \<not> or_Done r
                 \<and> chunk_Content c = om_Content (or_Message r))"
    using s' stream_loop_content by blast
  then have second: "(\<forall>r. Inr r \<in> set (dec_chat up body) \<and> \<not> or_Done r \<longrightarrow> om_Content (or_Message r) \<noteq> [])
            \<longrightarrow> (\<forall>c\<in>set s. \<not> is_terminal c \<longrightarrow> chunk_Content c \<noteq> [])"
    by metis
  have third: "\<forall>w ctx' req s'. ProviderWrapper_StreamChat up w ctx' req = Inr s'
            \<longrightarrow> (\<forall>c\<in>set s'. is_terminal c)"
    using wrapper_stream_terminal by blast
  have fourth: "s = map (\<lambda>u. \<lparr>chunk_Content = (case u of Inl e \<Rightarrow> [] | Inr r \<Rightarrow> om_Content (or_Message r)),
                       chunk_Done = False, chunk_Error = None\<rparr>)
               (takeWhile (\<lambda>u. \<not> stops u) (dec_chat up body))
             @ stream_loop (dropWhile (\<lambda>u. \<not> stops u) (dec_chat up body))"
    unfolding s' by (rule stream_loop_split)
  have fifth: "map chunk_Content (filter (\<lambda>c. \<not> is_terminal c) s)
           = map (\<lambda>u. case u of Inl e \<Rightarrow> [] | Inr r \<Rightarrow> om_Content (or_Message r))
               (takeWhile (\<lambda>u. \<not> stops u) (dec_chat up body))"
    unfolding s' by (rule stream_loop_deltas)
  from first second third fourth fifth show ?thesis
    by (intro conjI)
qed

theorem adapter_content_forwarded_witness:
  "fst (Provider_StreamChat done_upstream local_ollama Background [hi])
     = Inr [\<lparr>chunk_Content = ''par'', chunk_Done = False, chunk_Error = None\<rparr>,
            \<lparr>chunk_Content = [], chunk_Done = True, chunk_Error = None\<rparr>]
   \<and> http done_upstream (chat_post Background (config local_ollama) (Model (config local_ollama)) [hi] True)
       = Response 200 []
   \<and> filter (\<lambda>c. \<not> is_terminal c \<and> chunk_Content c = [])
        [\<lparr>chunk_Content = ''par'', chunk_Done = False, chunk_Error = None\<rparr>,
         \<lparr>chunk_Content = [], chunk_Done = True, chunk_Error = None\<rparr>] = []
   \<and> map chunk_Content (filter (\<lambda>c. \<not> is_terminal c)
        [\<lparr>chunk_Content = ''par'', chunk_Done = False, chunk_Error = None\<rparr>,
         \<lparr>chunk_Content = [], chunk_Done = True, chunk_Error = None\<rparr>]) = [''par'']"
proof -
  have a: "fst (Provider_StreamChat done_upstream local_ollama Background [hi])
     = Inr [\<lparr>chunk_Content = ''par'', chunk_Done = False, chunk_Error = None\<rparr>,
            \<lparr>chunk_Content = [], chunk_Done = True, chunk_Error = None\<rparr>]"
    by (simp add: Provider_StreamChat_def done_upstream_def fixed_upstream_def unit_of_def hi_def)
  have b: "http done_upstream (chat_post Background (config local_ollama) (Model (config local_ollama)) [hi] True)
       = Response 200 []"
    by (simp add: done_upstream_def fixed_upstream_def)
  have c: "\<forall>r. Inr r \<in> set (dec_chat done_upstream []) \<and> \<not> or_Done r \<longrightarrow> om_Content (or_Message r) \<noteq> []"
    by (auto simp: done_upstream_def fixed_upstream_def unit_of_def)
  have d: "takeWhile (\<lambda>u. \<not> stops u) (dec_chat done_upstream []) = [Inr (unit_of ''par'' False)]"
    by (simp add: done_upstream_def fixed_upstream_def unit_of_def)
  from adapter_content_forwarded [OF a b] c
  have "\<forall>c\<in>set [\<lparr>chunk_Content = ''par'', chunk_Done = False, chunk_Error = None\<rparr>,
         \<lparr>chunk_Content = [], chunk_Done = True, chunk_Error = None\<rparr>].
       \<not> is_terminal c \<longrightarrow> chunk_Content c \<noteq> []"
    by blast
  then have e: "filter (\<lambda>c. \<not> is_terminal c \<and> chunk_Content c = [])
        [\<lparr>chunk_Content = ''par'', chunk_Done = False, chunk_Error = None\<rparr>,
         \<lparr>chunk_Content = [], chunk_Done = True, chunk_Error = None\<rparr>] = []"
    by (simp add: is_terminal_def)
  note deltas = adapter_content_forwarded [OF a b, THEN conjunct2, THEN conjunct2, THEN conjunct2,
      THEN conjunct2]
  have f: "map chunk_Content (filter (\<lambda>c. \<not> is_terminal c)
        [\<lparr>chunk_Content = ''par'', chunk_Done = False, chunk_Error = None\<rparr>,
         \<lparr>chunk_Content = [], chunk_Done = True, chunk_Error = None\<rparr>]) = [''par'']"
    unfolding deltas d by (simp add: unit_of_def)
  from a b e f show ?thesis
    by simp
qed

text \<open>
  The upstream sends a unit with empty content and no done flag, then the done flag: the
  adapter emits a non-terminal chunk whose content is the empty string.
\<close>

theorem adapter_empty_content_counterexample:
  "fst (Provider_StreamChat empty_delta_upstream local_ollama Background [hi])
     = Inr [\<lparr>chunk_Content = [], chunk_Done = False, chunk_Error = None\<rparr>,
            \<lparr>chunk_Content = [], chunk_Done = True, chunk_Error = None\<rparr>]
   \<and> \<not> is_terminal \<lparr>chunk_Content = [], chunk_Done = False, chunk_Error = None\<rparr>"
  by (simp add: Provider_StreamChat_def empty_delta_upstream_def fixed_upstream_def unit_of_def
      is_terminal_def hi_def)

section \<open>Upstream failures\<close>








section \<open>The registry after start-up\<close>

lemma initializeProviders_probe:
  "initializeProviders up apiBase pm =
     (case startup_probe up apiBase of
        Inl err \<Rightarrow> pm
      | Inr models \<Rightarrow>
          if models = [] then pm
          else AList.update ''ollama''
                 (wrap \<lparr>config = \<lparr>BaseURL = (if apiBase \<noteq> [] then apiBase else ''http://localhost:11434''),
                                   Model = DefaultOllamaModel, Timeout = 120\<rparr>\<rparr>) pm)"
  by (simp add: initializeProviders_def startup_probe_def CreateOllamaProvider_def as_LLMProvider_def
      wrap_def DefaultOllamaBaseURL_def Let_def split: sum.split)

text \<open>
  C6. When the start-up probe fails, that is when the model listing returns an error or
  no model, \<^verbatim>\<open>initializeProviders\<close> leaves the registry as it was; the registry
  starts empty, so afterwards \<^verbatim>\<open>getAvailableProviders\<close> lists nothing,
  \<^verbatim>\<open>getProvider\<close> finds no provider under any name, and there is no default
  provider.
\<close>

theorem failed_probe_not_registered:
  assumes "\<forall>models. startup_probe up apiBase = Inr models \<longrightarrow> models = []"
  shows "initializeProviders up apiBase pm = pm
       \<and> getAvailableProviders (initializeProviders up apiBase []) = []
       \<and> (\<forall>name. getProvider (initializeProviders up apiBase []) name = None)
       \<and> getDefaultProvider (initializeProviders up apiBase []) = None"
proof -
  have "initializeProviders up apiBase pm' = pm'" for pm'
    using assms by (simp add: initializeProviders_probe split: sum.split)
  then show ?thesis
    by (simp add: getAvailableProviders_def getProvider_def getDefaultProvider_def)
qed

theorem failed_probe_not_registered_witness:
  "startup_probe down_upstream [] = Inl ''failed to send request: dial tcp 127.0.0.1:11434: connect: connection refused''
   \<and> startup_probe (fixed_upstream (Response 200 []) [] (Inr [])) [] = Inr []
   \<and> getAvailableProviders (initializeProviders down_upstream [] []) = []
   \<and> getProvider (initializeProviders down_upstream [] []) ''ollama'' = None
   \<and> getProvider (initializeProviders (fixed_upstream (Response 200 []) [] (Inr [])) [] []) ''ollama'' = None"
proof -
  have a: "startup_probe down_upstream [] = Inl ''failed to send request: dial tcp 127.0.0.1:11434: connect: connection refused''"
    by (simp add: startup_probe_def OllamaProvider_ListModels_def down_upstream_def fixed_upstream_def)
  have b: "startup_probe (fixed_upstream (Response 200 []) [] (Inr [])) [] = Inr []"
    by (simp add: startup_probe_def OllamaProvider_ListModels_def fixed_upstream_def)
  show ?thesis
    using failed_probe_not_registered [where up = down_upstream and apiBase = "[]" and pm = "[]"]
      failed_probe_not_registered [where up = "fixed_upstream (Response 200 []) [] (Inr [])"
        and apiBase = "[]" and pm = "[]"] a b
    by (simp add: getAvailableProviders_def getProvider_def)
qed

section \<open>The handlers\<close>

lemmas fixture_defs = hello_upstream_def silent_upstream_def fixed_upstream_def unit_of_def
  ollama_registry_def wrap_def local_ollama_def hi_request_def hi_def NewSessionManager_def
  DefaultOllamaBaseURL_def DefaultOllamaModel_def

lemmas handler_defs = handleChat_def getProvider_def getDefaultProvider_def
  ProviderWrapper_Name_def ProviderWrapper_GetDefaultModel_def ProviderWrapper_StreamChat_def
  as_LLMProvider_def OllamaProvider_GetDefaultModel_def OllamaProvider_Chat_def chat_round_def
  stop_response_def GetHistory_def AddMessage_def Save_def Let_def

lemma wrapper_singleton:
  "\<exists>c. ProviderWrapper_StreamChat up w ctx req = Inr [c]
      \<and> (case lp_Chat (pw_provider w) up ctx (scr_Messages req) (scr_Model req) of
            Inr resp \<Rightarrow> c = \<lparr>chunk_Content = lr_Content resp, chunk_Done = True, chunk_Error = None\<rparr>
          | Inl err \<Rightarrow> c = \<lparr>chunk_Content = [], chunk_Done = False, chunk_Error = Some err\<rparr>)"
  by (simp add: ProviderWrapper_StreamChat_def split: sum.split)

lemma handleChat_resolved:
  assumes "getProvider pm (if cr_Provider req = []
                  then (case getDefaultProvider pm of
                          Some p \<Rightarrow> ProviderWrapper_Name p
                        | None \<Rightarrow> [])
                  else cr_Provider req) = Some w"
  shows "\<exists>e. snd (handleChat up pm sm ''POST'' (Some req) stamp True) = EventStream [e]
      \<and> ((\<exists>resp messages model.
              lp_Chat (pw_provider w) up RequestContext messages model = Inr resp
              \<and> e = Data \<lparr>resp_Content = lr_Content resp, resp_Done = True, resp_Error = []\<rparr>)
         \<or> (\<exists>err messages model.
              lp_Chat (pw_provider w) up RequestContext messages model = Inl err
              \<and> e = ErrorData err))"
proof -
  define key where "key = (if cr_SessionKey req = [] then ''webui:'' @ stamp else cr_SessionKey req)"
  obtain history sm1 where at:
    "append_turn key (cr_Messages req) (GetHistory sm key, sm) = (history, sm1)"
    by (cases "append_turn key (cr_Messages req) (GetHistory sm key, sm)")
  define messages where "messages =
     (if cr_SystemPrompt req \<noteq> [] then \<lparr>Role = ''system'', Content = cr_SystemPrompt req\<rparr> # history
      else history)"
  define model where "model =
     (if cr_Model req = [] then ProviderWrapper_GetDefaultModel w else cr_Model req)"
  show ?thesis
  proof (cases "lp_Chat (pw_provider w) up RequestContext messages model")
    case (Inl err)
    then have "snd (handleChat up pm sm ''POST'' (Some req) stamp True) = EventStream [ErrorData err]"
      using assms at
      by (simp add: handleChat_def Let_def ProviderWrapper_StreamChat_def key_def messages_def model_def)
    with Inl show ?thesis by blast
  next
    case (Inr resp)
    then have "snd (handleChat up pm sm ''POST'' (Some req) stamp True)
        = EventStream [Data \<lparr>resp_Content = lr_Content resp, resp_Done = True, resp_Error = []\<rparr>]"
      using assms at
      by (simp add: handleChat_def Let_def ProviderWrapper_StreamChat_def key_def messages_def model_def)
    with Inr show ?thesis by blast
  qed
qed

text \<open>
  C1, as the code has it. The simulate-streaming wrapper sends exactly one chunk per
  turn: when \<^verbatim>\<open>Chat\<close> returns a response, the chunk carries the entire response text
  and has the done flag set in that same chunk; when \<^verbatim>\<open>Chat\<close> fails, the chunk is
  the error. \<^verbatim>\<open>handleChat\<close> forwards it as exactly one event: the response text with
  the done flag set, or the error. No separate done chunk follows the content.
\<close>

theorem wrapper_single_chunk:
  "(\<exists>c. ProviderWrapper_StreamChat up w ctx req = Inr [c]
      \<and> (case lp_Chat (pw_provider w) up ctx (scr_Messages req) (scr_Model req) of
            Inr resp \<Rightarrow> c = \<lparr>chunk_Content = lr_Content resp, chunk_Done = True, chunk_Error = None\<rparr>
          | Inl err \<Rightarrow> c = \<lparr>chunk_Content = [], chunk_Done = False, chunk_Error = Some err\<rparr>))
   \<and> (getProvider pm (if cr_Provider creq = []
                  then (case getDefaultProvider pm of
                          Some p \<Rightarrow> ProviderWrapper_Name p
                        | None \<Rightarrow> [])
                  else cr_Provider creq) = Some w \<longrightarrow>
        (\<exists>e. snd (handleChat up pm sm ''POST'' (Some creq) stamp True) = EventStream [e]
      \<and> ((\<exists>resp messages model.
              lp_Chat (pw_provider w) up RequestContext messages model = Inr resp
              \<and> e = Data \<lparr>resp_Content = lr_Content resp, resp_Done = True, resp_Error = []\<rparr>)
         \<or> (\<exists>err messages model.
              lp_Chat (pw_provider w) up RequestContext messages model = Inl err
              \<and> e = ErrorData err))))"
  using wrapper_singleton [of up w ctx req] handleChat_resolved [of pm creq w up sm stamp]
  by blast

theorem wrapper_single_chunk_witness:
  "getProvider ollama_registry ''ollama'' = Some (wrap local_ollama)
   \<and> lp_Chat (pw_provider (wrap local_ollama)) hello_upstream RequestContext [hi] ''llama3.2''
       = Inr \<lparr>lr_Content = ''hello'', lr_FinishReason = ''stop'',
              lr_Usage = \<lparr>PromptTokens = 0, CompletionTokens = 0, TotalTokens = 0\<rparr>\<rparr>
   \<and> ProviderWrapper_StreamChat hello_upstream (wrap local_ollama) RequestContext
        \<lparr>scr_Messages = [hi], scr_Model = ''llama3.2''\<rparr>
       = Inr [\<lparr>chunk_Content = ''hello'', chunk_Done = True, chunk_Error = None\<rparr>]
   \<and> snd (handleChat hello_upstream ollama_registry NewSessionManager ''POST''
          (Some (hi_request ''ollama'')) [] True)
       = EventStream [Data \<lparr>resp_Content = ''hello'', resp_Done = True, resp_Error = []\<rparr>]"
proof -
  have reg: "getProvider ollama_registry
      (if cr_Provider (hi_request ''ollama'') = []
       then (case getDefaultProvider ollama_registry of
               Some p \<Rightarrow> ProviderWrapper_Name p
             | None \<Rightarrow> [])
       else cr_Provider (hi_request ''ollama'')) = Some (wrap local_ollama)"
    by (simp add: getProvider_def ollama_registry_def hi_request_def)
  have chat: "lp_Chat (pw_provider (wrap local_ollama)) hello_upstream RequestContext [hi] ''llama3.2''
       = Inr \<lparr>lr_Content = ''hello'', lr_FinishReason = ''stop'',
              lr_Usage = \<lparr>PromptTokens = 0, CompletionTokens = 0, TotalTokens = 0\<rparr>\<rparr>"
    by (simp add: handler_defs fixture_defs)
  have turn: "snd (handleChat hello_upstream ollama_registry NewSessionManager ''POST''
          (Some (hi_request ''ollama'')) [] True)
       = EventStream [Data \<lparr>resp_Content = ''hello'', resp_Done = True, resp_Error = []\<rparr>]"
    by (simp add: handler_defs fixture_defs)
  show ?thesis
    using wrapper_single_chunk [where up = hello_upstream and w = "wrap local_ollama"
        and ctx = RequestContext and req = "\<lparr>scr_Messages = [hi], scr_Model = ''llama3.2''\<rparr>"
        and pm = ollama_registry and creq = "hi_request ''ollama''" and sm = NewSessionManager
        and stamp = "[]"] reg chat turn
    by (auto simp: getProvider_def ollama_registry_def)
qed

text \<open>
  The provider answers "hello" as one complete response: the wrapper's stream is the
  single chunk with content "hello" and the done flag, not a content chunk followed
  by a done chunk, and the client receives one event.
\<close>

theorem wrapper_combined_counterexample:
  "ProviderWrapper_StreamChat hello_upstream (wrap local_ollama) RequestContext
        \<lparr>scr_Messages = [hi], scr_Model = ''llama3.2''\<rparr>
       = Inr [\<lparr>chunk_Content = ''hello'', chunk_Done = True, chunk_Error = None\<rparr>]
   \<and> ProviderWrapper_StreamChat hello_upstream (wrap local_ollama) RequestContext
        \<lparr>scr_Messages = [hi], scr_Model = ''llama3.2''\<rparr>
       \<noteq> Inr [\<lparr>chunk_Content = ''hello'', chunk_Done = False, chunk_Error = None\<rparr>,
              \<lparr>chunk_Content = [], chunk_Done = True, chunk_Error = None\<rparr>]
   \<and> snd (handleChat hello_upstream ollama_registry NewSessionManager ''POST''
          (Some (hi_request ''ollama'')) [] True)
       = EventStream [Data \<lparr>resp_Content = ''hello'', resp_Done = True, resp_Error = []\<rparr>]"
  by (simp add: handler_defs fixture_defs)

text \<open>
  C3, as the code has it. A turn that names a provider that is not registered is
  refused before the session is touched: \<^verbatim>\<open>handleChat\<close> answers with the HTTP error
  400 and the text "Provider '<name>' not available", the WebSocket binding writes one
  error frame with that text, and in both the session store is left as it was: no
  assistant Message is appended, and no user Message either.
\<close>

theorem unknown_provider_rejected:
  assumes "cr_Provider req \<noteq> []" and "getProvider pm (cr_Provider req) = None"
  shows "handleChat up pm sm ''POST'' (Some req) stamp flusher
           = (sm, HttpError (''Provider '' @ [CHR 0x27] @ cr_Provider req @ [CHR 0x27] @ '' not available'') 400)
       \<and> handleWebSocket_turn up pm ok req stamp (sm, c)
           = (sm, fst (WriteJSON ok c
                \<lparr>resp_Content = [], resp_Done = False,
                 resp_Error = ''Provider '' @ [CHR 0x27] @ cr_Provider req @ [CHR 0x27] @ '' not available''\<rparr>))"
  using assms by (simp add: handleChat_def handleWebSocket_turn_def Let_def)

theorem unknown_provider_rejected_witness:
  "cr_Provider (hi_request ''gpt-nope'') \<noteq> []
   \<and> getProvider ollama_registry (cr_Provider (hi_request ''gpt-nope'')) = None
   \<and> handleChat hello_upstream ollama_registry NewSessionManager ''POST'' (Some (hi_request ''gpt-nope'')) [] True
       = (NewSessionManager, HttpError ''Provider 'gpt-nope' not available'' 400)
   \<and> written (snd (handleWebSocket_turn hello_upstream ollama_registry (\<lambda>i. True) (hi_request ''gpt-nope'') []
        (NewSessionManager, \<lparr>written = [], attempts = 0\<rparr>)))
       = [\<lparr>resp_Content = [], resp_Done = False, resp_Error = ''Provider 'gpt-nope' not available''\<rparr>]"
proof -
  have a: "cr_Provider (hi_request ''gpt-nope'') \<noteq> []"
    by (simp add: hi_request_def)
  have b: "getProvider ollama_registry (cr_Provider (hi_request ''gpt-nope'')) = None"
    by (simp add: hi_request_def getProvider_def ollama_registry_def)
  show ?thesis
    using unknown_provider_rejected [where req = "hi_request ''gpt-nope''" and pm = ollama_registry
        and up = hello_upstream and sm = NewSessionManager
        and stamp = "[]" and flusher = True and ok = "\<lambda>i. True"
        and c = "\<lparr>written = [], attempts = 0\<rparr>", OF a b] a b
    by (simp add: WriteJSON_def hi_request_def)
qed

text \<open>
  The turn \<open>{user, "hi"}\<close> on the fresh session \<open>s1\<close> names the provider
  \<open>gpt-nope\<close>: the reply is the HTTP error, and afterwards the history of \<open>s1\<close> is
  empty, in memory and on disk. The user Message was not appended.
\<close>

theorem unknown_provider_user_message_counterexample:
  "snd (handleChat hello_upstream ollama_registry NewSessionManager ''POST''
          (Some (hi_request ''gpt-nope'')) [] True)
     = HttpError ''Provider 'gpt-nope' not available'' 400
   \<and> GetHistory (fst (handleChat hello_upstream ollama_registry NewSessionManager ''POST''
          (Some (hi_request ''gpt-nope'')) [] True)) ''s1'' = []
   \<and> disk (fst (handleChat hello_upstream ollama_registry NewSessionManager ''POST''
          (Some (hi_request ''gpt-nope'')) [] True)) ''s1'' = None"
  by (simp add: handler_defs fixture_defs)

lemma sse_loop_content:
  "\<forall>c\<in>set cs. chunk_Error c = None \<and> \<not> chunk_Done c \<Longrightarrow>
     sse_loop key (cs @ rest) full sm =
       (fst (sse_loop key rest (full @ concat (map chunk_Content cs)) sm),
        map (\<lambda>c. Data \<lparr>resp_Content = chunk_Content c, resp_Done = chunk_Done c, resp_Error = []\<rparr>) cs
        @ snd (sse_loop key rest (full @ concat (map chunk_Content cs)) sm))"
  by (induction cs arbitrary: full) (auto simp: Let_def split: prod.splits)

text \<open>
  C4, as the code has it. For a stream of content chunks ended by a done chunk, the loop
  of \<^verbatim>\<open>handleChat\<close> forwards every chunk and, if and only if the accumulated text
  (the contents of all chunks, the done chunk's included) is non-empty, appends it to
  the session as exactly one assistant Message and then saves the session; when the
  text is empty it neither appends nor saves. After the turn \<open>{user, "hi"}\<close>
  answered "hello" on the fresh session \<open>s1\<close>, the history of \<open>s1\<close> is
  \<open>[{user, "hi"}, {assistant, "hello"}]\<close>.
\<close>

theorem done_turn_committed:
  assumes "\<forall>c\<in>set cs. chunk_Error c = None \<and> \<not> chunk_Done c"
    and "chunk_Error d = None" and "chunk_Done d"
  shows "sse_loop key (cs @ d # rest) [] sm =
           ((if concat (map chunk_Content (cs @ [d])) \<noteq> []
             then Save (AddMessage sm key ''assistant'' (concat (map chunk_Content (cs @ [d])))) key
             else sm),
            map (\<lambda>c. Data \<lparr>resp_Content = chunk_Content c, resp_Done = chunk_Done c, resp_Error = []\<rparr>)
              (cs @ [d]))
       \<and> (concat (map chunk_Content (cs @ [d])) \<noteq> [] \<longrightarrow>
            GetHistory (fst (sse_loop key (cs @ d # rest) [] sm)) key
              = GetHistory sm key @ [\<lparr>Role = ''assistant'', Content = concat (map chunk_Content (cs @ [d]))\<rparr>]
          \<and> disk (fst (sse_loop key (cs @ d # rest) [] sm)) key
              = Some (GetHistory sm key @ [\<lparr>Role = ''assistant'', Content = concat (map chunk_Content (cs @ [d]))\<rparr>]))
       \<and> (concat (map chunk_Content (cs @ [d])) = [] \<longrightarrow>
            fst (sse_loop key (cs @ d # rest) [] sm) = sm)
       \<and> GetHistory (fst (handleChat hello_upstream ollama_registry NewSessionManager ''POST''
            (Some (hi_request ''ollama'')) [] True)) ''s1''
           = [\<lparr>Role = ''user'', Content = ''hi''\<rparr>, \<lparr>Role = ''assistant'', Content = ''hello''\<rparr>]"
proof -
  have loop: "sse_loop key (cs @ d # rest) [] sm =
           ((if concat (map chunk_Content (cs @ [d])) \<noteq> []
             then Save (AddMessage sm key ''assistant'' (concat (map chunk_Content (cs @ [d])))) key
             else sm),
            map (\<lambda>c. Data \<lparr>resp_Content = chunk_Content c, resp_Done = chunk_Done c, resp_Error = []\<rparr>)
              (cs @ [d]))"
    using assms by (simp add: sse_loop_content Let_def)
  have stored: "GetHistory (Save (AddMessage sm key ''assistant'' t) key) key
        = GetHistory sm key @ [\<lparr>Role = ''assistant'', Content = t\<rparr>]
      \<and> disk (Save (AddMessage sm key ''assistant'' t) key) key
        = Some (GetHistory sm key @ [\<lparr>Role = ''assistant'', Content = t\<rparr>])" for t
    by (simp add: Save_def AddMessage_def GetHistory_def)
  have scenario: "GetHistory (fst (handleChat hello_upstream ollama_registry NewSessionManager ''POST''
            (Some (hi_request ''ollama'')) [] True)) ''s1''
           = [\<lparr>Role = ''user'', Content = ''hi''\<rparr>, \<lparr>Role = ''assistant'', Content = ''hello''\<rparr>]"
    by (simp add: handler_defs fixture_defs)
  show ?thesis
    using loop stored scenario by simp
qed

theorem done_turn_committed_witness:
  "sse_loop ''s1''
     ([\<lparr>chunk_Content = ''hel'', chunk_Done = False, chunk_Error = None\<rparr>]
      @ \<lparr>chunk_Content = ''lo'', chunk_Done = True, chunk_Error = None\<rparr> # []) [] NewSessionManager
     = (Save (AddMessage NewSessionManager ''s1'' ''assistant'' ''hello'') ''s1'',
        [Data \<lparr>resp_Content = ''hel'', resp_Done = False, resp_Error = []\<rparr>,
         Data \<lparr>resp_Content = ''lo'', resp_Done = True, resp_Error = []\<rparr>])
   \<and> GetHistory (fst (sse_loop ''s1''
         ([\<lparr>chunk_Content = ''hel'', chunk_Done = False, chunk_Error = None\<rparr>]
          @ \<lparr>chunk_Content = ''lo'', chunk_Done = True, chunk_Error = None\<rparr> # []) [] NewSessionManager)) ''s1''
       = [\<lparr>Role = ''assistant'', Content = ''hello''\<rparr>]"
proof -
  have a: "\<forall>c\<in>set [\<lparr>chunk_Content = ''hel'', chunk_Done = False, chunk_Error = None\<rparr>].
      chunk_Error c = None \<and> \<not> chunk_Done c"
    by simp
  have b: "chunk_Error \<lparr>chunk_Content = ''lo'', chunk_Done = True, chunk_Error = None\<rparr> = None"
    by simp
  have c: "chunk_Done \<lparr>chunk_Content = ''lo'', chunk_Done = True, chunk_Error = None\<rparr>"
    by simp
  show ?thesis
    using done_turn_committed [where key = "''s1''" and sm = NewSessionManager and rest = "[]", OF a b c]
    by (simp add: GetHistory_def NewSessionManager_def)
qed

text \<open>
  The provider answers with empty content: the stream ends with a done chunk, the
  client receives that event, and the session is not saved. The user Message is in
  memory only.
\<close>

theorem done_turn_not_saved_counterexample:
  "snd (handleChat silent_upstream ollama_registry NewSessionManager ''POST''
          (Some (hi_request ''ollama'')) [] True)
     = EventStream [Data \<lparr>resp_Content = [], resp_Done = True, resp_Error = []\<rparr>]
  \<and> GetHistory (fst (handleChat silent_upstream ollama_registry NewSessionManager ''POST''
          (Some (hi_request ''ollama'')) [] True)) ''s1'' = [hi]
  \<and> disk (fst (handleChat silent_upstream ollama_registry NewSessionManager ''POST''
          (Some (hi_request ''ollama'')) [] True)) ''s1'' = None"
  by (simp add: handler_defs fixture_defs)

text \<open>
  C5. For a stream of content chunks ended by an error chunk, the loop of
  \<^verbatim>\<open>handleChat\<close> returns the session store as it received it, so no assistant
  Message is appended and nothing is saved, and the events written are the content
  events, in order, followed by the error event: the partial content stays forwarded.
  Chunks after the error are not read.
\<close>

theorem failed_turn_not_committed:
  assumes "\<forall>c\<in>set cs. chunk_Error c = None \<and> \<not> chunk_Done c"
    and "chunk_Error x = Some err"
  shows "sse_loop key (cs @ x # rest) [] sm =
           (sm,
            map (\<lambda>c. Data \<lparr>resp_Content = chunk_Content c, resp_Done = chunk_Done c, resp_Error = []\<rparr>) cs
            @ [ErrorData err])"
  using assms by (simp add: sse_loop_content)

theorem failed_turn_not_committed_witness:
  "sse_loop ''s1''
     ([\<lparr>chunk_Content = ''par'', chunk_Done = False, chunk_Error = None\<rparr>]
      @ \<lparr>chunk_Content = [], chunk_Done = False, chunk_Error = Some ''decode error: unexpected EOF''\<rparr>
        # [])
     [] (AddMessage NewSessionManager ''s1'' ''user'' ''hi'')
     = (AddMessage NewSessionManager ''s1'' ''user'' ''hi'',
        [Data \<lparr>resp_Content = ''par'', resp_Done = False, resp_Error = []\<rparr>,
         ErrorData ''decode error: unexpected EOF''])"
proof -
  have a: "\<forall>c\<in>set [\<lparr>chunk_Content = ''par'', chunk_Done = False, chunk_Error = None\<rparr>].
      chunk_Error c = None \<and> \<not> chunk_Done c"
    by simp
  have b: "chunk_Error \<lparr>chunk_Content = [], chunk_Done = False,
      chunk_Error = Some ''decode error: unexpected EOF''\<rparr> = Some ''decode error: unexpected EOF''"
    by simp
  show ?thesis
    using failed_turn_not_committed [where key = "''s1''"
        and sm = "AddMessage NewSessionManager ''s1'' ''user'' ''hi''" and rest = "[]", OF a b]
    by simp
qed

section \<open>The two bindings side by side\<close>







end
